theory Spec2Isabelle
  imports Complex_Main
begin

section \<open>Data model\<close>

text \<open>
  The rows of the relational store, one record per GORM model, with the columns the
  follow, like, rating, feed, trending and similarity code reads or writes.
  Identifiers (Go \<open>uint\<close>) are natural numbers, counters (Go \<open>int\<close>, SQL integers, far
  from their bounds) are integers, \<open>float64\<close> is an exact real, a \<open>time.Time\<close> is an
  integer number of microseconds, and \<open>gorm.DeletedAt\<close> is an optional time: a row
  whose \<open>DeletedAt\<close> is set is soft-deleted, and every GORM query or update on a model
  with that column skips it. Columns maintained by the ORM alone (\<open>updated_at\<close>, the
  surrogate keys of the edge tables) are left out.
\<close>

record User =
  u_ID :: nat
  u_IsActive :: bool
  u_FollowersCount :: int
  u_FollowingCount :: int
  u_PostsCount :: int
  u_ItinerariesCount :: int
  u_DeletedAt :: "int option"

record Follow =
  f_FollowerID :: nat
  f_FollowedID :: nat

record Post =
  p_ID :: nat
  p_AuthorID :: nat
  p_LikesCount :: int
  p_CommentsCount :: int
  p_IsActive :: bool
  p_CreatedAt :: int
  p_DeletedAt :: "int option"

record PostLike =
  pl_UserID :: nat
  pl_PostID :: nat

record Itinerary =
  i_ID :: nat
  i_AuthorID :: nat
  i_Category :: string
  i_Country :: string
  i_City :: string
  i_IsPublic :: bool
  i_ViewsCount :: int
  i_LikesCount :: int
  i_RatingsCount :: int
  i_AverageRating :: real
  i_CreatedAt :: int
  i_DeletedAt :: "int option"

record ItineraryRating =
  r_ItineraryID :: nat
  r_UserID :: nat
  r_Rating :: int
  r_Comment :: string

text \<open>
  The database: one list of rows per table, in storage order. The GORM models declare
  no unique index on the edge tables, so a table is a list and may hold a pair twice.
\<close>

record DB =
  users :: "User list"
  follows :: "Follow list"
  posts :: "Post list"
  post_likes :: "PostLike list"
  itineraries :: "Itinerary list"
  itinerary_ratings :: "ItineraryRating list"

text \<open>
  Errors. The two GORM errors the repositories return, the store's refusal of a row that
  breaks a \<open>check:\<close> constraint, and one constructor for each
  message the services build with \<open>errors.New\<close> (the message, without accents, is the
  constructor's name).
\<close>

datatype error =
    ErrRecordNotFound
  | ErrInvalidData
  | ErrCheckViolation
  | Err_voce_nao_pode_seguir_a_si_mesmo
  | Err_usuario_nao_encontrado
  | Err_voce_ja_esta_seguindo_este_usuario
  | Err_operacao_invalida
  | Err_voce_nao_esta_seguindo_este_usuario
  | Err_post_nao_encontrado
  | Err_voce_ja_curtiu_este_post
  | Err_voce_nao_curtiu_este_post
  | Err_roteiro_nao_encontrado
  | Err_nao_e_possivel_avaliar_roteiros_privados
  | Err_avaliacao_deve_estar_entre_1_e_5
  | Err_voce_ja_avaliou_este_roteiro
  | Err_voce_ainda_nao_avaliou_este_roteiro
  | Err_erro_ao_buscar_roteiros_similares

text \<open>
  A mutating operation returns the database it leaves behind and the Go \<open>error\<close>
  (\<open>None\<close> is \<open>nil\<close>). A store call is taken to fail only the way the code tests for:
  \<open>First\<close> on no row is \<open>ErrRecordNotFound\<close>.
\<close>

type_synonym 'a result = "error + 'a"

section \<open>Query building blocks\<close>

text \<open>
  \<open>First\<close>: the matching row with the least primary key, or \<open>ErrRecordNotFound\<close>. Rows are
  stored in the order of their keys.
\<close>

definition First :: "('a \<Rightarrow> bool) \<Rightarrow> 'a list \<Rightarrow> 'a result" where
  "First P rows = (case find P rows of None \<Rightarrow> Inl ErrRecordNotFound | Some r \<Rightarrow> Inr r)"

text \<open>\<open>Count\<close>: the number of matching rows.\<close>

definition Count :: "('a \<Rightarrow> bool) \<Rightarrow> 'a list \<Rightarrow> int" where
  "Count P rows = int (length (filter P rows))"

text \<open>\<open>Model(..).Where(..).Update(..)\<close>: every matching row is rewritten, the others stay.\<close>

definition Update :: "('a \<Rightarrow> bool) \<Rightarrow> ('a \<Rightarrow> 'a) \<Rightarrow> 'a list \<Rightarrow> 'a list" where
  "Update P g rows = map (\<lambda>r. if P r then g r else r) rows"

text \<open>\<open>Where(..).Delete(..)\<close> on a model without \<open>DeletedAt\<close>: the matching rows are removed.\<close>

definition Delete :: "('a \<Rightarrow> bool) \<Rightarrow> 'a list \<Rightarrow> 'a list" where
  "Delete P rows = filter (\<lambda>r. \<not> P r) rows"

text \<open>\<open>RowsAffected\<close> of such a delete.\<close>

definition RowsAffected :: "('a \<Rightarrow> bool) \<Rightarrow> 'a list \<Rightarrow> int" where
  "RowsAffected P rows = int (length (filter P rows))"

text \<open>
  \<open>ORDER BY\<close>: the rows sorted by a "comes no later than" relation. SQL leaves the order
  of rows with equal keys open; the model keeps them in storage order (a stable
  insertion sort).
\<close>

fun insert_by :: "('a \<Rightarrow> 'a \<Rightarrow> bool) \<Rightarrow> 'a \<Rightarrow> 'a list \<Rightarrow> 'a list" where
  "insert_by le x [] = [x]"
| "insert_by le x (y # ys) = (if le x y then x # y # ys else y # insert_by le x ys)"

fun Order :: "('a \<Rightarrow> 'a \<Rightarrow> bool) \<Rightarrow> 'a list \<Rightarrow> 'a list" where
  "Order le [] = []"
| "Order le (x # xs) = insert_by le x (Order le xs)"

text \<open>
  \<open>Limit(limit).Offset(offset)\<close>: GORM writes \<open>OFFSET\<close> only for a positive offset and
  \<open>LIMIT\<close> only for a non-negative limit. The services pass a limit between 1 and 50.
\<close>

definition Limit_Offset :: "int \<Rightarrow> int \<Rightarrow> 'a list \<Rightarrow> 'a list" where
  "Limit_Offset limit offset rows =
     (let rest = (if 0 < offset then drop (nat offset) rows else rows)
      in if 0 \<le> limit then take (nat limit) rest else rest)"

section \<open>UserRepository\<close>

definition UserRepository_GetByID :: "DB \<Rightarrow> nat \<Rightarrow> User result" where
  "UserRepository_GetByID s id' =
     First (\<lambda>u. u_ID u = id' \<and> u_IsActive u \<and> u_DeletedAt u = None) (users s)"

definition UserRepository_IsFollowing :: "DB \<Rightarrow> nat \<Rightarrow> nat \<Rightarrow> bool" where
  "UserRepository_IsFollowing s followerID followedID =
     (Count (\<lambda>f. f_FollowerID f = followerID \<and> f_FollowedID f = followedID) (follows s) > 0)"

definition UserRepository_FollowUser :: "DB \<Rightarrow> nat \<Rightarrow> nat \<Rightarrow> DB \<times> error option" where
  "UserRepository_FollowUser s followerID followedID =
     (if followerID = followedID then (s, Some ErrInvalidData)
      else
        let s1 = s\<lparr>follows := follows s @ [\<lparr>f_FollowerID = followerID, f_FollowedID = followedID\<rparr>]\<rparr>;
            s2 = s1\<lparr>users := Update (\<lambda>u. u_ID u = followerID \<and> u_DeletedAt u = None)
                                 (\<lambda>u. u\<lparr>u_FollowingCount := u_FollowingCount u + 1\<rparr>) (users s1)\<rparr>;
            s3 = s2\<lparr>users := Update (\<lambda>u. u_ID u = followedID \<and> u_DeletedAt u = None)
                                 (\<lambda>u. u\<lparr>u_FollowersCount := u_FollowersCount u + 1\<rparr>) (users s2)\<rparr>
        in (s3, None))"

definition UserRepository_UnfollowUser :: "DB \<Rightarrow> nat \<Rightarrow> nat \<Rightarrow> DB \<times> error option" where
  "UserRepository_UnfollowUser s followerID followedID =
     (let s1 = s\<lparr>follows := Delete (\<lambda>f. f_FollowerID f = followerID \<and> f_FollowedID f = followedID)
                                 (follows s)\<rparr>;
          s2 = s1\<lparr>users := Update (\<lambda>u. u_ID u = followerID \<and> u_DeletedAt u = None)
                               (\<lambda>u. u\<lparr>u_FollowingCount := u_FollowingCount u - 1\<rparr>) (users s1)\<rparr>;
          s3 = s2\<lparr>users := Update (\<lambda>u. u_ID u = followedID \<and> u_DeletedAt u = None)
                               (\<lambda>u. u\<lparr>u_FollowersCount := u_FollowersCount u - 1\<rparr>) (users s2)\<rparr>
      in (s3, None))"

section \<open>UserService\<close>

definition UserService_FollowUser :: "DB \<Rightarrow> nat \<Rightarrow> nat \<Rightarrow> DB \<times> error option" where
  "UserService_FollowUser s followerID followedID =
     (if followerID = followedID then (s, Some Err_voce_nao_pode_seguir_a_si_mesmo)
      else case UserRepository_GetByID s followedID of
        Inl err \<Rightarrow> (s, Some Err_usuario_nao_encontrado)
      | Inr u \<Rightarrow>
          if UserRepository_IsFollowing s followerID followedID
          then (s, Some Err_voce_ja_esta_seguindo_este_usuario)
          else UserRepository_FollowUser s followerID followedID)"

definition UserService_UnfollowUser :: "DB \<Rightarrow> nat \<Rightarrow> nat \<Rightarrow> DB \<times> error option" where
  "UserService_UnfollowUser s followerID followedID =
     (if followerID = followedID then (s, Some Err_operacao_invalida)
      else if \<not> UserRepository_IsFollowing s followerID followedID
      then (s, Some Err_voce_nao_esta_seguindo_este_usuario)
      else UserRepository_UnfollowUser s followerID followedID)"

section \<open>PostRepository\<close>

definition PostRepository_GetByID :: "DB \<Rightarrow> nat \<Rightarrow> Post result" where
  "PostRepository_GetByID s id' =
     First (\<lambda>p. p_ID p = id' \<and> p_IsActive p \<and> p_DeletedAt p = None) (posts s)"

definition PostRepository_IsLiked :: "DB \<Rightarrow> nat \<Rightarrow> nat \<Rightarrow> bool" where
  "PostRepository_IsLiked s userID postID =
     (Count (\<lambda>l. pl_UserID l = userID \<and> pl_PostID l = postID) (post_likes s) > 0)"

definition PostRepository_LikePost :: "DB \<Rightarrow> nat \<Rightarrow> nat \<Rightarrow> DB \<times> error option" where
  "PostRepository_LikePost s userID postID =
     (case First (\<lambda>l. pl_UserID l = userID \<and> pl_PostID l = postID) (post_likes s) of
        Inr existingLike \<Rightarrow> (s, None)
      | Inl err \<Rightarrow>
          let s1 = s\<lparr>post_likes := post_likes s @ [\<lparr>pl_UserID = userID, pl_PostID = postID\<rparr>]\<rparr>;
              s2 = s1\<lparr>posts := Update (\<lambda>p. p_ID p = postID \<and> p_DeletedAt p = None)
                                   (\<lambda>p. p\<lparr>p_LikesCount := p_LikesCount p + 1\<rparr>) (posts s1)\<rparr>
          in (s2, None))"

definition PostRepository_UnlikePost :: "DB \<Rightarrow> nat \<Rightarrow> nat \<Rightarrow> DB \<times> error option" where
  "PostRepository_UnlikePost s userID postID =
     (let rowsAffected = RowsAffected (\<lambda>l. pl_UserID l = userID \<and> pl_PostID l = postID) (post_likes s);
          s1 = s\<lparr>post_likes := Delete (\<lambda>l. pl_UserID l = userID \<and> pl_PostID l = postID)
                                     (post_likes s)\<rparr>
      in if rowsAffected > 0
         then (s1\<lparr>posts := Update (\<lambda>p. p_ID p = postID \<and> p_DeletedAt p = None)
                                  (\<lambda>p. p\<lparr>p_LikesCount := p_LikesCount p - 1\<rparr>) (posts s1)\<rparr>, None)
         else (s1, None))"

text \<open>
  The author set of the feed query: \<open>SELECT followed_id FROM follows WHERE follower_id = ?
  UNION SELECT ?\<close>.
\<close>

definition feed_authors :: "DB \<Rightarrow> nat \<Rightarrow> nat list" where
  "feed_authors s userID =
     map f_FollowedID (filter (\<lambda>f. f_FollowerID f = userID) (follows s)) @ [userID]"

definition created_at_desc :: "Post \<Rightarrow> Post \<Rightarrow> bool" where
  "created_at_desc p q = (p_CreatedAt p \<ge> p_CreatedAt q)"

text \<open>\<open>Preload("Likes")\<close>: each returned post comes with its like rows.\<close>

definition Preload_Likes :: "DB \<Rightarrow> Post \<Rightarrow> Post \<times> PostLike list" where
  "Preload_Likes s p = (p, filter (\<lambda>l. pl_PostID l = p_ID p) (post_likes s))"

definition PostRepository_GetFeed :: "DB \<Rightarrow> nat \<Rightarrow> int \<Rightarrow> int \<Rightarrow> (Post \<times> PostLike list) list" where
  "PostRepository_GetFeed s userID limit offset =
     map (Preload_Likes s)
       (Limit_Offset limit offset
         (Order created_at_desc
           (filter (\<lambda>p. p_AuthorID p \<in> set (feed_authors s userID) \<and> p_IsActive p
                        \<and> p_DeletedAt p = None)
                   (posts s))))"

section \<open>PostService\<close>

record PostResponse =
  pr_ID :: nat
  pr_AuthorID :: nat
  pr_LikesCount :: int
  pr_CommentsCount :: int
  pr_CreatedAt :: int
  pr_IsLiked :: bool

definition Post_ToResponse :: "Post \<times> PostLike list \<Rightarrow> nat \<Rightarrow> PostResponse" where
  "Post_ToResponse pl currentUserID =
     \<lparr>pr_ID = p_ID (fst pl), pr_AuthorID = p_AuthorID (fst pl),
      pr_LikesCount = p_LikesCount (fst pl), pr_CommentsCount = p_CommentsCount (fst pl),
      pr_CreatedAt = p_CreatedAt (fst pl),
      pr_IsLiked = list_ex (\<lambda>like. pl_UserID like = currentUserID) (snd pl)\<rparr>"

definition PostService_GetFeed :: "DB \<Rightarrow> nat \<Rightarrow> int \<Rightarrow> int \<Rightarrow> PostResponse list result" where
  "PostService_GetFeed s userID limit offset =
     (let limit' = (if limit \<le> 0 \<or> limit > 50 then 20 else limit)
      in Inr (map (\<lambda>post. Post_ToResponse post userID)
                  (PostRepository_GetFeed s userID limit' offset)))"

definition PostService_LikePost :: "DB \<Rightarrow> nat \<Rightarrow> nat \<Rightarrow> DB \<times> error option" where
  "PostService_LikePost s userID postID =
     (case PostRepository_GetByID s postID of
        Inl err \<Rightarrow> (s, Some Err_post_nao_encontrado)
      | Inr post \<Rightarrow>
          if PostRepository_IsLiked s userID postID then (s, Some Err_voce_ja_curtiu_este_post)
          else PostRepository_LikePost s userID postID)"

definition PostService_UnlikePost :: "DB \<Rightarrow> nat \<Rightarrow> nat \<Rightarrow> DB \<times> error option" where
  "PostService_UnlikePost s userID postID =
     (case PostRepository_GetByID s postID of
        Inl err \<Rightarrow> (s, Some Err_post_nao_encontrado)
      | Inr post \<Rightarrow>
          if \<not> PostRepository_IsLiked s userID postID then (s, Some Err_voce_nao_curtiu_este_post)
          else PostRepository_UnlikePost s userID postID)"

section \<open>ItineraryRepository\<close>

definition ItineraryRepository_GetByID :: "DB \<Rightarrow> nat \<Rightarrow> Itinerary result" where
  "ItineraryRepository_GetByID s id' =
     First (\<lambda>i. i_ID i = id' \<and> i_DeletedAt i = None) (itineraries s)"

definition ItineraryRepository_GetUserRating :: "DB \<Rightarrow> nat \<Rightarrow> nat \<Rightarrow> ItineraryRating result" where
  "ItineraryRepository_GetUserRating s userID itineraryID =
     First (\<lambda>r. r_UserID r = userID \<and> r_ItineraryID r = itineraryID) (itinerary_ratings s)"

text \<open>\<open>AVG(rating)\<close> over a non-empty set of rows.\<close>

definition AVG :: "int list \<Rightarrow> real" where
  "AVG xs = real_of_int (sum_list xs) / real (length xs)"

definition updateItineraryRatingStats :: "DB \<Rightarrow> nat \<Rightarrow> DB \<times> error option" where
  "updateItineraryRatingStats s itineraryID =
     (let ratingsCount = Count (\<lambda>r. r_ItineraryID r = itineraryID) (itinerary_ratings s);
          avgRating = (if ratingsCount > 0
                       then AVG (map r_Rating (filter (\<lambda>r. r_ItineraryID r = itineraryID)
                                                       (itinerary_ratings s)))
                       else 0)
      in (s\<lparr>itineraries := Update (\<lambda>i. i_ID i = itineraryID \<and> i_DeletedAt i = None)
                                  (\<lambda>i. i\<lparr>i_AverageRating := avgRating, i_RatingsCount := ratingsCount\<rparr>)
                                  (itineraries s)\<rparr>, None))"

text \<open>
  The rating column carries \<open>check:rating >= 1 AND rating <= 5\<close>: the store refuses a row
  outside it and the transaction rolls back.
\<close>

definition rating_check :: "int \<Rightarrow> bool" where
  "rating_check rating = (rating \<ge> 1 \<and> rating \<le> 5)"

definition ItineraryRepository_RateItinerary ::
    "DB \<Rightarrow> nat \<Rightarrow> nat \<Rightarrow> int \<Rightarrow> string \<Rightarrow> DB \<times> error option" where
  "ItineraryRepository_RateItinerary s userID itineraryID rating comment =
     (if \<not> rating_check rating then (s, Some ErrCheckViolation)
      else
        let s1 = s\<lparr>itinerary_ratings := itinerary_ratings s @
                     [\<lparr>r_ItineraryID = itineraryID, r_UserID = userID,
                       r_Rating = rating, r_Comment = comment\<rparr>]\<rparr>
        in updateItineraryRatingStats s1 itineraryID)"



definition ItineraryRepository_IncrementViews :: "DB \<Rightarrow> nat \<Rightarrow> DB \<times> error option" where
  "ItineraryRepository_IncrementViews s id' =
     (s\<lparr>itineraries := Update (\<lambda>i. i_ID i = id' \<and> i_DeletedAt i = None)
                               (\<lambda>i. i\<lparr>i_ViewsCount := i_ViewsCount i + 1\<rparr>) (itineraries s)\<rparr>, None)"







section \<open>ItineraryService\<close>

record ItineraryResponse =
  ir_ID :: nat
  ir_AuthorID :: nat
  ir_Category :: string
  ir_Country :: string
  ir_City :: string
  ir_ViewsCount :: int
  ir_LikesCount :: int
  ir_RatingsCount :: int
  ir_AverageRating :: real
  ir_CreatedAt :: int

definition Itinerary_ToResponse :: "Itinerary \<Rightarrow> ItineraryResponse" where
  "Itinerary_ToResponse i =
     \<lparr>ir_ID = i_ID i, ir_AuthorID = i_AuthorID i, ir_Category = i_Category i,
      ir_Country = i_Country i, ir_City = i_City i, ir_ViewsCount = i_ViewsCount i,
      ir_LikesCount = i_LikesCount i, ir_RatingsCount = i_RatingsCount i,
      ir_AverageRating = i_AverageRating i, ir_CreatedAt = i_CreatedAt i\<rparr>"

text \<open>
  \<open>strings.TrimSpace\<close> on the white space of ASCII (tab, line feed, vertical tab, form
  feed, carriage return, space); a comment is a byte string.
\<close>

definition isSpace :: "char \<Rightarrow> bool" where
  "isSpace c = (c \<in> set [CHR 0x09, CHR 0x0A, CHR 0x0B, CHR 0x0C, CHR 0x0D, CHR 0x20])"

definition TrimSpace :: "string \<Rightarrow> string" where
  "TrimSpace str = rev (dropWhile isSpace (rev (dropWhile isSpace str)))"

definition validateRating :: "int \<Rightarrow> error option" where
  "validateRating rating =
     (if rating < 1 \<or> rating > 5 then Some Err_avaliacao_deve_estar_entre_1_e_5 else None)"

text \<open>
  \<open>GetItineraryByID\<close> drops the error of \<open>IncrementViews\<close> and answers with the row it
  read before the increment.
\<close>

definition ItineraryService_GetItineraryByID ::
    "DB \<Rightarrow> nat \<Rightarrow> nat \<Rightarrow> DB \<times> ItineraryResponse result" where
  "ItineraryService_GetItineraryByID s itineraryID currentUserID =
     (case ItineraryRepository_GetByID s itineraryID of
        Inl err \<Rightarrow> (s, Inl Err_roteiro_nao_encontrado)
      | Inr itinerary \<Rightarrow>
          if \<not> i_IsPublic itinerary \<and> i_AuthorID itinerary \<noteq> currentUserID
          then (s, Inl Err_roteiro_nao_encontrado)
          else
            let s1 = (if i_AuthorID itinerary \<noteq> currentUserID
                      then fst (ItineraryRepository_IncrementViews s itineraryID) else s)
            in (s1, Inr (Itinerary_ToResponse itinerary)))"

definition ItineraryService_RateItinerary ::
    "DB \<Rightarrow> nat \<Rightarrow> nat \<Rightarrow> int \<Rightarrow> string \<Rightarrow> DB \<times> error option" where
  "ItineraryService_RateItinerary s userID itineraryID rating comment =
     (case ItineraryRepository_GetByID s itineraryID of
        Inl err \<Rightarrow> (s, Some Err_roteiro_nao_encontrado)
      | Inr itinerary \<Rightarrow>
          if \<not> i_IsPublic itinerary then (s, Some Err_nao_e_possivel_avaliar_roteiros_privados)
          else
            (case validateRating rating of
               Some err \<Rightarrow> (s, Some err)
             | None \<Rightarrow>
                 (case ItineraryRepository_GetUserRating s userID itineraryID of
                    Inr existing \<Rightarrow> (s, Some Err_voce_ja_avaliou_este_roteiro)
                  | Inl err \<Rightarrow>
                      ItineraryRepository_RateItinerary s userID itineraryID rating
                        (TrimSpace comment))))"




section \<open>Rating statistics as the specification states them\<close>

text \<open>
  The specification's side of the rating invariant, to be compared with what
  \<open>updateItineraryRatingStats\<close> stores: the scores of the rating rows of an itinerary,
  their arithmetic mean (0 when there is none), and the statement that an itinerary row
  carries the number of those rows and their mean.
\<close>

definition spec_ratings :: "DB \<Rightarrow> nat \<Rightarrow> int list" where
  "spec_ratings s itineraryID =
     map r_Rating (filter (\<lambda>r. r_ItineraryID r = itineraryID) (itinerary_ratings s))"

definition spec_mean :: "int list \<Rightarrow> real" where
  "spec_mean scores =
     (if scores = [] then 0 else real_of_int (sum_list scores) / real (length scores))"


section \<open>A small database\<close>

text \<open>
  Three accounts; account 1 follows account 2. Four posts: one by each account and an
  inactive one by account 2. Four itineraries: two public beach ones (Rio, Lisboa), a
  private urban one and a public urban one in Paris, all created ten days before the
  time \<open>example_now\<close>, except the last, created forty days before.
\<close>

definition day :: int where
  "day = 24 * 60 * 60 * 1000000"

definition example_now :: int where
  "example_now = 100 * day"

definition example_user :: "nat \<Rightarrow> User" where
  "example_user n = \<lparr>u_ID = n, u_IsActive = True, u_FollowersCount = 0, u_FollowingCount = 0,
                      u_PostsCount = 0, u_ItinerariesCount = 0, u_DeletedAt = None\<rparr>"

definition example_post :: "nat \<Rightarrow> nat \<Rightarrow> bool \<Rightarrow> int \<Rightarrow> Post" where
  "example_post n author active created =
     \<lparr>p_ID = n, p_AuthorID = author, p_LikesCount = 0, p_CommentsCount = 0,
      p_IsActive = active, p_CreatedAt = created, p_DeletedAt = None\<rparr>"

definition example_itinerary ::
    "nat \<Rightarrow> nat \<Rightarrow> string \<Rightarrow> string \<Rightarrow> string \<Rightarrow> bool \<Rightarrow> int \<Rightarrow> int \<Rightarrow> Itinerary" where
  "example_itinerary n author category country city public views created =
     \<lparr>i_ID = n, i_AuthorID = author, i_Category = category, i_Country = country,
      i_City = city, i_IsPublic = public, i_ViewsCount = views, i_LikesCount = 0,
      i_RatingsCount = 0, i_AverageRating = 0, i_CreatedAt = created, i_DeletedAt = None\<rparr>"

definition example_db :: DB where
  "example_db =
     \<lparr>users = [(example_user 1)\<lparr>u_FollowingCount := 1\<rparr>,
               (example_user 2)\<lparr>u_FollowersCount := 1\<rparr>, example_user 3],
      follows = [\<lparr>f_FollowerID = 1, f_FollowedID = 2\<rparr>],
      posts = [example_post 10 2 True (90 * day), example_post 11 3 True (91 * day),
               example_post 12 1 True (92 * day), example_post 13 2 False (93 * day)],
      post_likes = [],
      itineraries =
        [example_itinerary 1 1 ''beach'' ''BR'' ''Rio'' True 5 (90 * day),
         example_itinerary 2 2 ''beach'' ''PT'' ''Lisboa'' True 7 (90 * day),
         example_itinerary 3 3 ''urban'' ''BR'' ''Recife'' False 0 (90 * day),
         example_itinerary 4 3 ''urban'' ''FR'' ''Paris'' True 9 (60 * day)],
      itinerary_ratings = []\<rparr>"

section \<open>Properties\<close>

subsection \<open>Queries, ordering and paging\<close>

lemmas example_defs = example_db_def example_user_def example_post_def example_itinerary_def
  example_now_def day_def

lemma set_insert_by: "set (insert_by le x xs) = insert x (set xs)"
  by (induction xs) auto

lemma set_Order: "set (Order le xs) = set xs"
  by (induction xs) (auto simp: set_insert_by)

lemma sorted_insert_by:
  assumes total: "\<And>a b. le a b \<or> le b a"
      and trans: "\<And>a b c. le a b \<Longrightarrow> le b c \<Longrightarrow> le a c"
  shows "sorted_wrt le xs \<Longrightarrow> sorted_wrt le (insert_by le x xs)"
proof (induction xs)
  case Nil
  then show ?case by simp
next
  case (Cons y ys)
  show ?case
  proof (cases "le x y")
    case True
    with Cons.prems trans show ?thesis by auto
  next
    case False
    with total have "le y x" by blast
    with False Cons show ?thesis by (auto simp: set_insert_by)
  qed
qed

lemma sorted_Order:
  assumes total: "\<And>a b. le a b \<or> le b a"
      and trans: "\<And>a b c. le a b \<Longrightarrow> le b c \<Longrightarrow> le a c"
  shows "sorted_wrt le (Order le xs)"
  by (induction xs) (auto intro: sorted_insert_by [OF total trans])

lemma set_Limit_Offset: "set (Limit_Offset limit offset xs) \<subseteq> set xs"
  by (auto simp: Limit_Offset_def Let_def dest: in_set_takeD in_set_dropD)

lemma sorted_Limit_Offset: "sorted_wrt le xs \<Longrightarrow> sorted_wrt le (Limit_Offset limit offset xs)"
  by (simp add: Limit_Offset_def Let_def)


lemma First_Nil: "First P [] = Inl ErrRecordNotFound"
  by (simp add: First_def)

lemma First_Cons: "First P (x # xs) = (if P x then Inr x else First P xs)"
  by (simp add: First_def)

lemma First_Inr_iff: "First P rows = Inr r \<longleftrightarrow> find P rows = Some r"
  by (simp add: First_def split: option.splits)

lemma First_Inl_iff: "First P rows = Inl e \<longleftrightarrow> e = ErrRecordNotFound \<and> (\<forall>r\<in>set rows. \<not> P r)"
  by (induction rows) (auto simp: First_Nil First_Cons)

lemma First_InrD: "First P rows = Inr r \<Longrightarrow> P r \<and> r \<in> set rows"
  by (auto simp: First_Inr_iff find_Some_iff)





lemma created_at_desc_total: "created_at_desc a b \<or> created_at_desc b a"
  by (auto simp: created_at_desc_def)

lemma created_at_desc_trans: "created_at_desc a b \<Longrightarrow> created_at_desc b c \<Longrightarrow> created_at_desc a c"
  by (auto simp: created_at_desc_def)

lemma Limit_Offset_page:
  "0 \<le> limit \<Longrightarrow> 0 \<le> offset \<Longrightarrow> Limit_Offset limit offset xs = take (nat limit) (drop (nat offset) xs)"
  by (cases "offset = 0") (simp_all add: Limit_Offset_def)

lemma feed_authors_iff:
  "a \<in> set (feed_authors s userID) \<longleftrightarrow> a = userID \<or> UserRepository_IsFollowing s userID a"
proof -
  have "UserRepository_IsFollowing s userID a
        \<longleftrightarrow> (\<exists>f\<in>set (follows s). f_FollowerID f = userID \<and> f_FollowedID f = a)"
    by (auto simp: UserRepository_IsFollowing_def Count_def filter_empty_conv)
  then show ?thesis by (auto simp: feed_authors_def)
qed

subsection \<open>Updates, edges and counters\<close>

lemma First_Update:
  assumes "\<And>r. Q r \<Longrightarrow> P (g r) = P r"
  shows "First P (Update Q g rows) =
           (case First P rows of Inl e \<Rightarrow> Inl e | Inr r \<Rightarrow> Inr (if Q r then g r else r))"
  using assms by (induction rows) (auto simp: First_Nil First_Cons Update_def)

lemma Update_Update_inverse:
  assumes "\<And>r. P r \<Longrightarrow> P (g r)" and "\<And>r. P r \<Longrightarrow> h (g r) = r"
  shows "Update P h (Update P g rows) = rows"
  using assms by (induction rows) (auto simp: Update_def)

lemma IsFollowing_iff:
  "UserRepository_IsFollowing s a b
     \<longleftrightarrow> (\<exists>f\<in>set (follows s). f_FollowerID f = a \<and> f_FollowedID f = b)"
  by (auto simp: UserRepository_IsFollowing_def Count_def filter_empty_conv)

lemma Delete_none: "(\<forall>r\<in>set rows. \<not> P r) \<Longrightarrow> Delete P rows = rows"
  by (induction rows) (auto simp: Delete_def)

lemma Delete_all: "\<forall>r\<in>set (Delete P rows). \<not> P r"
  by (auto simp: Delete_def)

lemma FollowUser_success:
  assumes "UserService_FollowUser s A B = (s1, None)"
  shows "A \<noteq> B" and "\<not> UserRepository_IsFollowing s A B"
    and "\<exists>b. UserRepository_GetByID s B = Inr b"
    and "s1 = fst (UserRepository_FollowUser s A B)"
  using assms
  by (auto simp: UserService_FollowUser_def UserRepository_FollowUser_def Let_def
      split: if_splits sum.splits)

lemma UnfollowUser_repo_follows:
  "UserRepository_UnfollowUser s A B = (s1, e) \<Longrightarrow>
     e = None \<and> follows s1 = Delete (\<lambda>f. f_FollowerID f = A \<and> f_FollowedID f = B) (follows s)"
  by (auto simp: UserRepository_UnfollowUser_def Let_def)

lemma IsLiked_iff:
  "PostRepository_IsLiked s u p \<longleftrightarrow> (\<exists>l\<in>set (post_likes s). pl_UserID l = u \<and> pl_PostID l = p)"
  by (auto simp: PostRepository_IsLiked_def Count_def filter_empty_conv)

lemma RowsAffected_pos_iff: "RowsAffected P rows > 0 \<longleftrightarrow> (\<exists>r\<in>set rows. P r)"
  by (auto simp: RowsAffected_def filter_empty_conv)

lemma LikePost_success:
  assumes "PostService_LikePost s U P = (s1, None)"
  shows "\<exists>post. PostRepository_GetByID s P = Inr post"
    and "\<not> PostRepository_IsLiked s U P"
    and "s1 = s\<lparr>post_likes := post_likes s @ [\<lparr>pl_UserID = U, pl_PostID = P\<rparr>],
                 posts := Update (\<lambda>p. p_ID p = P \<and> p_DeletedAt p = None)
                            (\<lambda>p. p\<lparr>p_LikesCount := p_LikesCount p + 1\<rparr>) (posts s)\<rparr>"
proof -
  from assms show ex: "\<exists>post. PostRepository_GetByID s P = Inr post"
    by (auto simp: PostService_LikePost_def split: sum.splits)
  from assms show nl: "\<not> PostRepository_IsLiked s U P"
    by (auto simp: PostService_LikePost_def split: sum.splits if_splits)
  from nl have "First (\<lambda>l. pl_UserID l = U \<and> pl_PostID l = P) (post_likes s) = Inl ErrRecordNotFound"
    by (auto simp: First_Inl_iff IsLiked_iff)
  with assms ex nl
  show "s1 = s\<lparr>post_likes := post_likes s @ [\<lparr>pl_UserID = U, pl_PostID = P\<rparr>],
                 posts := Update (\<lambda>p. p_ID p = P \<and> p_DeletedAt p = None)
                            (\<lambda>p. p\<lparr>p_LikesCount := p_LikesCount p + 1\<rparr>) (posts s)\<rparr>"
    by (auto simp: PostService_LikePost_def PostRepository_LikePost_def Let_def)
qed

lemma GetItineraryByID_IncrementViews:
  assumes "ItineraryRepository_GetByID s I = Inr it"
  shows "ItineraryRepository_GetByID (fst (ItineraryRepository_IncrementViews s I)) I
           = Inr (it\<lparr>i_ViewsCount := i_ViewsCount it + 1\<rparr>)"
proof -
  from assms have "i_ID it = I \<and> i_DeletedAt it = None"
    unfolding ItineraryRepository_GetByID_def by (auto dest: First_InrD)
  with assms show ?thesis
    by (simp add: ItineraryRepository_GetByID_def ItineraryRepository_IncrementViews_def First_Update)
qed

subsection \<open>Ratings\<close>

lemma GetUserRating_Inr_iff:
  "(\<exists>r. ItineraryRepository_GetUserRating s U I = Inr r)
     \<longleftrightarrow> (\<exists>r\<in>set (itinerary_ratings s). r_UserID r = U \<and> r_ItineraryID r = I)"
proof
  assume "\<exists>r. ItineraryRepository_GetUserRating s U I = Inr r"
  then show "\<exists>r\<in>set (itinerary_ratings s). r_UserID r = U \<and> r_ItineraryID r = I"
    unfolding ItineraryRepository_GetUserRating_def by (auto dest: First_InrD)
next
  assume "\<exists>r\<in>set (itinerary_ratings s). r_UserID r = U \<and> r_ItineraryID r = I"
  then have "\<not> (\<exists>e. ItineraryRepository_GetUserRating s U I = Inl e)"
    unfolding ItineraryRepository_GetUserRating_def by (auto simp: First_Inl_iff)
  then show "\<exists>r. ItineraryRepository_GetUserRating s U I = Inr r"
    by (cases "ItineraryRepository_GetUserRating s U I") auto
qed

lemma GetByID_Inl_iff:
  "(\<exists>e. ItineraryRepository_GetByID s I = Inl e)
     \<longleftrightarrow> (\<forall>i\<in>set (itineraries s). \<not> (i_ID i = I \<and> i_DeletedAt i = None))"
  unfolding ItineraryRepository_GetByID_def by (auto simp: First_Inl_iff)

lemma updateItineraryRatingStats_eq:
  "updateItineraryRatingStats s1 I =
     (s1\<lparr>itineraries := Update (\<lambda>i. i_ID i = I \<and> i_DeletedAt i = None)
            (\<lambda>i. i\<lparr>i_AverageRating := spec_mean (spec_ratings s1 I),
                    i_RatingsCount := int (length (spec_ratings s1 I))\<rparr>)
            (itineraries s1)\<rparr>, None)"
  by (simp add: updateItineraryRatingStats_def Let_def Count_def AVG_def spec_mean_def
      spec_ratings_def)

subsection \<open>Recomputed statistics\<close>









subsection \<open>The operations\<close>

text \<open>
  C9. Following oneself: for every account \<open>A\<close> and every database, \<open>FollowUser A A\<close>
  returns the self-follow error and leaves the database as it was: no follow edge is
  created and no counter changes. The repository refuses the pair too.
\<close>

theorem C9_follow_self_fails:
  "UserService_FollowUser s A A = (s, Some Err_voce_nao_pode_seguir_a_si_mesmo)
   \<and> UserRepository_FollowUser s A A = (s, Some ErrInvalidData)"
  by (simp add: UserService_FollowUser_def UserRepository_FollowUser_def)





text \<open>
  C3. \<open>GetFeed\<close>: the candidates are exactly the live, active posts whose author is
  the viewer \<open>V\<close> or an account \<open>V\<close> follows; they are ordered by creation time
  descending; the repository returns the page \<open>(limit, offset)\<close> of that list, so every
  returned post is such a post; and the service returns the responses of the page whose
  limit is the given one when it lies in 1..50 and 20 otherwise.
\<close>

theorem C3_GetFeed:
  "\<exists>all. set all = {p \<in> set (posts s). p_DeletedAt p = None \<and> p_IsActive p
                       \<and> (p_AuthorID p = V \<or> UserRepository_IsFollowing s V (p_AuthorID p))}
     \<and> sorted_wrt (\<lambda>p q. p_CreatedAt p \<ge> p_CreatedAt q) all
     \<and> map fst (PostRepository_GetFeed s V limit offset) = Limit_Offset limit offset all
     \<and> (0 \<le> limit \<longrightarrow> 0 \<le> offset \<longrightarrow>
          map fst (PostRepository_GetFeed s V limit offset) = take (nat limit) (drop (nat offset) all))
     \<and> sorted_wrt (\<lambda>p q. p_CreatedAt p \<ge> p_CreatedAt q) (map fst (PostRepository_GetFeed s V limit offset))
     \<and> (\<forall>p\<in>set (map fst (PostRepository_GetFeed s V limit offset)).
           p \<in> set (posts s) \<and> p_DeletedAt p = None \<and> p_IsActive p
           \<and> (p_AuthorID p = V \<or> UserRepository_IsFollowing s V (p_AuthorID p)))
     \<and> PostService_GetFeed s V limit offset =
         Inr (map (\<lambda>post. Post_ToResponse post V)
               (PostRepository_GetFeed s V (if limit \<le> 0 \<or> limit > 50 then 20 else limit) offset))"
proof -
  define cand where "cand = filter (\<lambda>p. p_AuthorID p \<in> set (feed_authors s V) \<and> p_IsActive p
                                         \<and> p_DeletedAt p = None) (posts s)"
  define all where "all = Order created_at_desc cand"
  have fst_pre: "map fst (map (Preload_Likes s) xs) = xs" for xs
    by (induction xs) (simp_all add: Preload_Likes_def)
  have eq: "map fst (PostRepository_GetFeed s V limit offset) = Limit_Offset limit offset all"
    by (simp only: PostRepository_GetFeed_def fst_pre all_def cand_def)
  have set_all: "set all = {p \<in> set (posts s). p_DeletedAt p = None \<and> p_IsActive p
                       \<and> (p_AuthorID p = V \<or> UserRepository_IsFollowing s V (p_AuthorID p))}"
    by (auto simp: all_def cand_def set_Order feed_authors_iff)
  have "sorted_wrt created_at_desc all"
    unfolding all_def by (rule sorted_Order, rule created_at_desc_total, erule created_at_desc_trans)
  then have srt: "sorted_wrt (\<lambda>p q. p_CreatedAt p \<ge> p_CreatedAt q) all"
    unfolding created_at_desc_def .
  have page: "0 \<le> limit \<longrightarrow> 0 \<le> offset \<longrightarrow>
          map fst (PostRepository_GetFeed s V limit offset) = take (nat limit) (drop (nat offset) all)"
    by (simp add: eq Limit_Offset_page)
  have srt2: "sorted_wrt (\<lambda>p q. p_CreatedAt p \<ge> p_CreatedAt q) (map fst (PostRepository_GetFeed s V limit offset))"
    unfolding eq by (rule sorted_Limit_Offset [OF srt])
  have mem: "\<forall>p\<in>set (map fst (PostRepository_GetFeed s V limit offset)).
           p \<in> set (posts s) \<and> p_DeletedAt p = None \<and> p_IsActive p
           \<and> (p_AuthorID p = V \<or> UserRepository_IsFollowing s V (p_AuthorID p))"
    using set_Limit_Offset [of limit offset all] set_all unfolding eq by auto
  have svc: "PostService_GetFeed s V limit offset =
         Inr (map (\<lambda>post. Post_ToResponse post V)
               (PostRepository_GetFeed s V (if limit \<le> 0 \<or> limit > 50 then 20 else limit) offset))"
    by (simp add: PostService_GetFeed_def Let_def)
  from set_all srt eq page srt2 mem svc show ?thesis
    by (intro exI [of _ all] conjI)
qed

theorem C3_GetFeed_witness:
  "map (p_ID \<circ> fst) (PostRepository_GetFeed example_db 1 20 0) = [12, 10]
   \<and> map pr_ID (projr (PostService_GetFeed example_db 1 0 0)) = [12, 10]
   \<and> list_all (\<lambda>p. p_IsActive p
                      \<and> (p_AuthorID p = 1 \<or> UserRepository_IsFollowing example_db 1 (p_AuthorID p)))
         (map fst (PostRepository_GetFeed example_db 1 20 0))"
  using C3_GetFeed [of example_db 1 20 0]
  by (simp add: example_defs PostRepository_GetFeed_def PostService_GetFeed_def Limit_Offset_def
      created_at_desc_def feed_authors_def Preload_Likes_def Post_ToResponse_def
      UserRepository_IsFollowing_def Count_def)

text \<open>
  C2. Follow, then unfollow: when \<open>FollowUser A B\<close> succeeds, one edge \<open>(A, B)\<close> is
  appended to the follow table, every live row of \<open>A\<close> has its following count raised
  by one and every live row of \<open>B\<close> its followers count raised by one, with all else
  unchanged (read through \<open>GetByID\<close>: the counts are the old ones plus one); and
  \<open>UnfollowUser A B\<close> on the result succeeds and gives back the database from before the
  follow, with no edge \<open>(A, B)\<close> and both counters at their earlier values.
\<close>

theorem C2_follow_unfollow:
  assumes "UserService_FollowUser s A B = (s1, None)"
  shows "follows s1 = follows s @ [\<lparr>f_FollowerID = A, f_FollowedID = B\<rparr>]
       \<and> UserRepository_IsFollowing s1 A B
       \<and> users s1 = map (\<lambda>u. if u_ID u = A \<and> u_DeletedAt u = None
                                then u\<lparr>u_FollowingCount := u_FollowingCount u + 1\<rparr>
                              else if u_ID u = B \<and> u_DeletedAt u = None
                                then u\<lparr>u_FollowersCount := u_FollowersCount u + 1\<rparr>
                              else u) (users s)
       \<and> (\<forall>a. UserRepository_GetByID s A = Inr a \<longrightarrow>
              UserRepository_GetByID s1 A = Inr (a\<lparr>u_FollowingCount := u_FollowingCount a + 1\<rparr>))
       \<and> (\<exists>b. UserRepository_GetByID s B = Inr b
              \<and> UserRepository_GetByID s1 B = Inr (b\<lparr>u_FollowersCount := u_FollowersCount b + 1\<rparr>))
       \<and> UserService_UnfollowUser s1 A B = (s, None)
       \<and> \<not> UserRepository_IsFollowing s A B"
proof -
  note ok = FollowUser_success [OF assms]
  from ok(3) obtain b where b: "UserRepository_GetByID s B = Inr b" ..
  have s1: "s1 = s\<lparr>follows := follows s @ [\<lparr>f_FollowerID = A, f_FollowedID = B\<rparr>],
                   users := Update (\<lambda>u. u_ID u = B \<and> u_DeletedAt u = None)
                                 (\<lambda>u. u\<lparr>u_FollowersCount := u_FollowersCount u + 1\<rparr>)
                             (Update (\<lambda>u. u_ID u = A \<and> u_DeletedAt u = None)
                                 (\<lambda>u. u\<lparr>u_FollowingCount := u_FollowingCount u + 1\<rparr>) (users s))\<rparr>"
    using ok(1,4) by (simp add: UserRepository_FollowUser_def Let_def)
  have edge: "follows s1 = follows s @ [\<lparr>f_FollowerID = A, f_FollowedID = B\<rparr>]"
    by (simp add: s1)
  have isf: "UserRepository_IsFollowing s1 A B"
    by (simp add: IsFollowing_iff edge)
  have usr: "users s1 = map (\<lambda>u. if u_ID u = A \<and> u_DeletedAt u = None
                                then u\<lparr>u_FollowingCount := u_FollowingCount u + 1\<rparr>
                              else if u_ID u = B \<and> u_DeletedAt u = None
                                then u\<lparr>u_FollowersCount := u_FollowersCount u + 1\<rparr>
                              else u) (users s)"
    using ok(1) by (simp add: s1 Update_def)
  have getA: "\<forall>a. UserRepository_GetByID s A = Inr a \<longrightarrow>
              UserRepository_GetByID s1 A = Inr (a\<lparr>u_FollowingCount := u_FollowingCount a + 1\<rparr>)"
  proof (intro allI impI)
    fix a assume a: "UserRepository_GetByID s A = Inr a"
    then have pa: "u_ID a = A \<and> u_IsActive a \<and> u_DeletedAt a = None"
      unfolding UserRepository_GetByID_def by (auto dest: First_InrD)
    show "UserRepository_GetByID s1 A = Inr (a\<lparr>u_FollowingCount := u_FollowingCount a + 1\<rparr>)"
      using a pa ok(1)
      by (simp add: UserRepository_GetByID_def s1 First_Update)
  qed
  have getB: "UserRepository_GetByID s1 B = Inr (b\<lparr>u_FollowersCount := u_FollowersCount b + 1\<rparr>)"
  proof -
    from b have pb: "u_ID b = B \<and> u_IsActive b \<and> u_DeletedAt b = None"
      unfolding UserRepository_GetByID_def by (auto dest: First_InrD)
    show ?thesis using b pb ok(1)
      by (simp add: UserRepository_GetByID_def s1 First_Update)
  qed
  have edge_gone: "Delete (\<lambda>f. f_FollowerID f = A \<and> f_FollowedID f = B) (follows s1) = follows s"
    using ok(2) by (simp add: edge Delete_def IsFollowing_iff filter_id_conv)
  have restore: "Update (\<lambda>u. u_ID u = B \<and> u_DeletedAt u = None)
                (\<lambda>u. u\<lparr>u_FollowersCount := u_FollowersCount u - 1\<rparr>)
              (Update (\<lambda>u. u_ID u = A \<and> u_DeletedAt u = None)
                (\<lambda>u. u\<lparr>u_FollowingCount := u_FollowingCount u - 1\<rparr>) (users s1)) = users s"
    unfolding usr Update_def using ok(1) by (auto intro!: map_idI)
  have unf: "UserService_UnfollowUser s1 A B = (s, None)"
    using ok(1) isf
    by (simp add: UserService_UnfollowUser_def UserRepository_UnfollowUser_def Let_def edge_gone restore)
      (simp add: s1)
  from edge isf usr getA b getB unf ok(2) show ?thesis by blast
qed

theorem C2_follow_unfollow_witness:
  "UserService_FollowUser example_db 3 1
     = (fst (UserService_FollowUser example_db 3 1), None)
   \<and> map u_FollowingCount (users (fst (UserService_FollowUser example_db 3 1))) = [1, 0, 1]
   \<and> map u_FollowersCount (users (fst (UserService_FollowUser example_db 3 1))) = [1, 1, 0]
   \<and> UserService_UnfollowUser (fst (UserService_FollowUser example_db 3 1)) 3 1 = (example_db, None)"
proof -
  have h: "UserService_FollowUser example_db 3 1 = (fst (UserService_FollowUser example_db 3 1), None)"
    by (simp add: example_defs UserService_FollowUser_def UserRepository_FollowUser_def
        UserRepository_GetByID_def UserRepository_IsFollowing_def First_def Count_def Update_def)
  have u: "users example_db = [(example_user 1)\<lparr>u_FollowingCount := 1\<rparr>,
               (example_user 2)\<lparr>u_FollowersCount := 1\<rparr>, example_user 3]"
    by (simp add: example_db_def)
  from C2_follow_unfollow [OF h] h show ?thesis
    by (simp add: u example_user_def)
qed

text \<open>
  C8. Unfollowing without an edge. The pair \<open>(1, 1)\<close> has no follow edge, and
  \<open>UnfollowUser 1 1\<close> does not answer with the not-following error: the guard
  \<open>followerID == followedID\<close> answers first, with the invalid-operation error.
\<close>

theorem C8_unfollow_self_counterexample:
  "\<not> UserRepository_IsFollowing example_db 1 1
   \<and> UserService_UnfollowUser example_db 1 1 = (example_db, Some Err_operacao_invalida)
   \<and> UserService_UnfollowUser example_db 1 1
       \<noteq> (example_db, Some Err_voce_nao_esta_seguindo_este_usuario)"
  by (simp add: UserService_UnfollowUser_def UserRepository_IsFollowing_def Count_def example_defs)

text \<open>
  C8, as the code has it. When no follow edge exists for the pair, \<open>UnfollowUser\<close> fails and
  leaves the database as it was: with the not-following error when the two accounts
  differ, with the invalid-operation error when they are the same. After a successful
  unfollow the same call fails with the not-following error and changes nothing. And
  whenever \<open>UnfollowUser\<close> returns an error, no counter and no edge has changed.
\<close>

theorem C8_unfollow_without_edge:
  "(\<not> UserRepository_IsFollowing s followerID followedID \<longrightarrow>
      UserService_UnfollowUser s followerID followedID =
        (s, Some (if followerID = followedID then Err_operacao_invalida
                  else Err_voce_nao_esta_seguindo_este_usuario)))
   \<and> (UserService_UnfollowUser s followerID followedID = (s1, None) \<longrightarrow>
        followerID \<noteq> followedID
        \<and> UserService_UnfollowUser s1 followerID followedID =
             (s1, Some Err_voce_nao_esta_seguindo_este_usuario))
   \<and> (\<forall>s' e. UserService_UnfollowUser s followerID followedID = (s', Some e) \<longrightarrow> s' = s)"
proof (intro conjI impI allI)
  assume "\<not> UserRepository_IsFollowing s followerID followedID"
  then show "UserService_UnfollowUser s followerID followedID =
        (s, Some (if followerID = followedID then Err_operacao_invalida
                  else Err_voce_nao_esta_seguindo_este_usuario))"
    by (simp add: UserService_UnfollowUser_def)
next
  assume ok: "UserService_UnfollowUser s followerID followedID = (s1, None)"
  then show ne: "followerID \<noteq> followedID"
    by (auto simp: UserService_UnfollowUser_def split: if_splits)
  from ok have "UserRepository_UnfollowUser s followerID followedID = (s1, None)"
    by (auto simp: UserService_UnfollowUser_def split: if_splits)
  then have "follows s1 = Delete (\<lambda>f. f_FollowerID f = followerID \<and> f_FollowedID f = followedID) (follows s)"
    by (auto dest: UnfollowUser_repo_follows)
  then have "\<not> UserRepository_IsFollowing s1 followerID followedID"
    using Delete_all [of "\<lambda>f. f_FollowerID f = followerID \<and> f_FollowedID f = followedID" "follows s"]
    by (auto simp: IsFollowing_iff)
  with ne show "UserService_UnfollowUser s1 followerID followedID =
             (s1, Some Err_voce_nao_esta_seguindo_este_usuario)"
    by (simp add: UserService_UnfollowUser_def)
next
  fix s' e
  assume "UserService_UnfollowUser s followerID followedID = (s', Some e)"
  then show "s' = s"
    by (auto simp: UserService_UnfollowUser_def UserRepository_UnfollowUser_def Let_def
        split: if_splits)
qed

theorem C8_unfollow_without_edge_witness:
  "\<not> UserRepository_IsFollowing example_db 3 1
   \<and> UserService_UnfollowUser example_db 3 1
        = (example_db, Some Err_voce_nao_esta_seguindo_este_usuario)
   \<and> UserService_UnfollowUser example_db 1 2
        = (fst (UserService_UnfollowUser example_db 1 2), None)
   \<and> UserService_UnfollowUser (fst (UserService_UnfollowUser example_db 1 2)) 1 2
        = (fst (UserService_UnfollowUser example_db 1 2),
           Some Err_voce_nao_esta_seguindo_este_usuario)
   \<and> map u_FollowersCount (users (fst (UserService_UnfollowUser example_db 1 2))) = [0, 0, 0]"
proof -
  have n: "\<not> UserRepository_IsFollowing example_db 3 1"
    by (simp add: UserRepository_IsFollowing_def Count_def example_defs)
  have h: "UserService_UnfollowUser example_db 1 2
        = (fst (UserService_UnfollowUser example_db 1 2), None)"
    by (simp add: UserService_UnfollowUser_def UserRepository_UnfollowUser_def
        UserRepository_IsFollowing_def Count_def example_defs)
  have c: "map u_FollowersCount (users (fst (UserService_UnfollowUser example_db 1 2))) = [0, 0, 0]"
    by (simp add: UserService_UnfollowUser_def UserRepository_UnfollowUser_def
        UserRepository_IsFollowing_def Count_def Delete_def Update_def example_defs)
  from C8_unfollow_without_edge [of example_db 3 1 example_db]
       C8_unfollow_without_edge [of example_db 1 2 "fst (UserService_UnfollowUser example_db 1 2)"]
       n h c
  show ?thesis by simp
qed

text \<open>
  C6. Like, then unlike: when \<open>LikePost U P\<close> succeeds the post's likes count is the old
  one plus one, and \<open>UnlikePost U P\<close> on the result succeeds and gives back the database
  from before the like. For a post that \<open>GetByID\<close> finds, \<open>UnlikePost\<close> without a like
  edge fails with the not-liked error (for a post it does not find, with the
  post-not-found error); whenever \<open>UnlikePost\<close> returns an error the database is
  unchanged; and in the repository, a delete that affects no row leaves
  every likes count as it was.
\<close>

theorem C6_like_unlike:
  "(PostService_LikePost s U P = (s1, None) \<longrightarrow>
      (\<exists>post. PostRepository_GetByID s P = Inr post
         \<and> PostRepository_GetByID s1 P = Inr (post\<lparr>p_LikesCount := p_LikesCount post + 1\<rparr>))
      \<and> PostRepository_IsLiked s1 U P
      \<and> PostService_UnlikePost s1 U P = (s, None))
   \<and> (\<forall>post. PostRepository_GetByID s P = Inr post \<longrightarrow> \<not> PostRepository_IsLiked s U P \<longrightarrow>
         PostService_UnlikePost s U P = (s, Some Err_voce_nao_curtiu_este_post))
   \<and> (\<forall>err. PostRepository_GetByID s P = Inl err \<longrightarrow>
         PostService_UnlikePost s U P = (s, Some Err_post_nao_encontrado))
   \<and> (\<forall>s' e. PostService_UnlikePost s U P = (s', Some e) \<longrightarrow> s' = s)
   \<and> (RowsAffected (\<lambda>l. pl_UserID l = U \<and> pl_PostID l = P) (post_likes s) = 0 \<longrightarrow>
         PostRepository_UnlikePost s U P = (s, None))"
proof (intro conjI impI allI)
  assume like: "PostService_LikePost s U P = (s1, None)"
  note ok = LikePost_success [OF like]
  from ok(1) obtain post where post: "PostRepository_GetByID s P = Inr post" ..
  then have pp: "p_ID post = P \<and> p_IsActive post \<and> p_DeletedAt post = None"
    unfolding PostRepository_GetByID_def by (auto dest: First_InrD)
  have get1: "PostRepository_GetByID s1 P = Inr (post\<lparr>p_LikesCount := p_LikesCount post + 1\<rparr>)"
    using post pp by (simp add: PostRepository_GetByID_def ok(3) First_Update)
  with post show "\<exists>post. PostRepository_GetByID s P = Inr post
         \<and> PostRepository_GetByID s1 P = Inr (post\<lparr>p_LikesCount := p_LikesCount post + 1\<rparr>)"
    by blast
  show liked: "PostRepository_IsLiked s1 U P"
    by (simp add: IsLiked_iff ok(3))
  have rows: "RowsAffected (\<lambda>l. pl_UserID l = U \<and> pl_PostID l = P) (post_likes s1) > 0"
    by (simp add: RowsAffected_pos_iff ok(3))
  have gone: "Delete (\<lambda>l. pl_UserID l = U \<and> pl_PostID l = P) (post_likes s1) = post_likes s"
    using ok(2) by (simp add: ok(3) Delete_def IsLiked_iff filter_id_conv)
  have restore: "Update (\<lambda>p. p_ID p = P \<and> p_DeletedAt p = None)
                   (\<lambda>p. p\<lparr>p_LikesCount := p_LikesCount p - 1\<rparr>) (posts s1) = posts s"
    unfolding ok(3) by (simp add: Update_Update_inverse)
  show "PostService_UnlikePost s1 U P = (s, None)"
    using get1 liked rows
    by (simp add: PostService_UnlikePost_def PostRepository_UnlikePost_def Let_def gone restore)
      (simp add: ok(3))
next
  fix post
  assume "PostRepository_GetByID s P = Inr post" and "\<not> PostRepository_IsLiked s U P"
  then show "PostService_UnlikePost s U P = (s, Some Err_voce_nao_curtiu_este_post)"
    by (simp add: PostService_UnlikePost_def)
next
  fix err
  assume "PostRepository_GetByID s P = Inl err"
  then show "PostService_UnlikePost s U P = (s, Some Err_post_nao_encontrado)"
    by (simp add: PostService_UnlikePost_def)
next
  fix s' e
  assume "PostService_UnlikePost s U P = (s', Some e)"
  then show "s' = s"
    by (auto simp: PostService_UnlikePost_def PostRepository_UnlikePost_def Let_def
        split: sum.splits if_splits)
next
  assume z: "RowsAffected (\<lambda>l. pl_UserID l = U \<and> pl_PostID l = P) (post_likes s) = 0"
  then have "\<forall>l\<in>set (post_likes s). \<not> (pl_UserID l = U \<and> pl_PostID l = P)"
    using RowsAffected_pos_iff [of "\<lambda>l. pl_UserID l = U \<and> pl_PostID l = P" "post_likes s"] by auto
  then have "Delete (\<lambda>l. pl_UserID l = U \<and> pl_PostID l = P) (post_likes s) = post_likes s"
    by (rule Delete_none)
  with z show "PostRepository_UnlikePost s U P = (s, None)"
    by (simp add: PostRepository_UnlikePost_def Let_def)
qed

theorem C6_like_unlike_witness:
  "PostService_LikePost example_db 1 10 = (fst (PostService_LikePost example_db 1 10), None)
   \<and> map p_LikesCount (posts (fst (PostService_LikePost example_db 1 10))) = [1, 0, 0, 0]
   \<and> PostService_UnlikePost (fst (PostService_LikePost example_db 1 10)) 1 10 = (example_db, None)
   \<and> PostService_UnlikePost example_db 1 10 = (example_db, Some Err_voce_nao_curtiu_este_post)
   \<and> PostRepository_UnlikePost example_db 1 10 = (example_db, None)"
proof -
  have h: "PostService_LikePost example_db 1 10 = (fst (PostService_LikePost example_db 1 10), None)"
    by (simp add: example_defs PostService_LikePost_def PostRepository_LikePost_def
        PostRepository_GetByID_def PostRepository_IsLiked_def First_def Count_def)
  have c: "map p_LikesCount (posts (fst (PostService_LikePost example_db 1 10))) = [1, 0, 0, 0]"
    by (simp add: example_defs PostService_LikePost_def PostRepository_LikePost_def
        PostRepository_GetByID_def PostRepository_IsLiked_def First_def Count_def Update_def)
  have g: "PostRepository_GetByID example_db 10 = Inr (example_post 10 2 True (90 * day))"
    by (simp add: example_defs PostRepository_GetByID_def First_def)
  have n: "\<not> PostRepository_IsLiked example_db 1 10"
    by (simp add: example_defs PostRepository_IsLiked_def Count_def)
  have z: "RowsAffected (\<lambda>l. pl_UserID l = 1 \<and> pl_PostID l = 10) (post_likes example_db) = 0"
    by (simp add: example_defs RowsAffected_def)
  from C6_like_unlike [of example_db 1 10 "fst (PostService_LikePost example_db 1 10)"] h c g n z
  show ?thesis by simp
qed

text \<open>
  C10. \<open>GetItineraryByID\<close> writes: when it succeeds, the itinerary was found and the
  response is built from the row as read. If the requester is not the author, the
  database afterwards differs from the one before exactly in the views count of the
  live rows with that identifier, which is one higher (so reading the itinerary again
  gives the same row with views plus one). If the requester is the author, the database
  is unchanged.
\<close>

theorem C10_GetItineraryByID_views:
  assumes "ItineraryService_GetItineraryByID s itineraryID currentUserID = (s', Inr resp)"
  shows "\<exists>it. ItineraryRepository_GetByID s itineraryID = Inr it
           \<and> resp = Itinerary_ToResponse it
           \<and> (i_AuthorID it \<noteq> currentUserID \<longrightarrow>
                 s' = s\<lparr>itineraries :=
                          map (\<lambda>i. if i_ID i = itineraryID \<and> i_DeletedAt i = None
                                   then i\<lparr>i_ViewsCount := i_ViewsCount i + 1\<rparr> else i)
                              (itineraries s)\<rparr>
                 \<and> ItineraryRepository_GetByID s' itineraryID
                      = Inr (it\<lparr>i_ViewsCount := i_ViewsCount it + 1\<rparr>)
                 \<and> s' \<noteq> s)
           \<and> (i_AuthorID it = currentUserID \<longrightarrow> s' = s)"
proof -
  from assms obtain it where it: "ItineraryRepository_GetByID s itineraryID = Inr it"
    by (auto simp: ItineraryService_GetItineraryByID_def split: sum.splits)
  from assms it have resp: "resp = Itinerary_ToResponse it"
    by (auto simp: ItineraryService_GetItineraryByID_def Let_def split: if_splits)
  have own: "i_AuthorID it = currentUserID \<longrightarrow> s' = s"
    using assms it by (auto simp: ItineraryService_GetItineraryByID_def Let_def split: if_splits)
  have other: "i_AuthorID it \<noteq> currentUserID \<longrightarrow>
                 s' = s\<lparr>itineraries :=
                          map (\<lambda>i. if i_ID i = itineraryID \<and> i_DeletedAt i = None
                                   then i\<lparr>i_ViewsCount := i_ViewsCount i + 1\<rparr> else i)
                              (itineraries s)\<rparr>
                 \<and> ItineraryRepository_GetByID s' itineraryID
                      = Inr (it\<lparr>i_ViewsCount := i_ViewsCount it + 1\<rparr>)
                 \<and> s' \<noteq> s"
  proof
    assume ne: "i_AuthorID it \<noteq> currentUserID"
    with assms it have s': "s' = fst (ItineraryRepository_IncrementViews s itineraryID)"
      by (auto simp: ItineraryService_GetItineraryByID_def Let_def split: if_splits)
    have get': "ItineraryRepository_GetByID s' itineraryID
                  = Inr (it\<lparr>i_ViewsCount := i_ViewsCount it + 1\<rparr>)"
      unfolding s' by (rule GetItineraryByID_IncrementViews [OF it])
    have "s' \<noteq> s"
    proof
      assume "s' = s"
      with get' it have "it\<lparr>i_ViewsCount := i_ViewsCount it + 1\<rparr> = it" by simp
      then have "i_ViewsCount (it\<lparr>i_ViewsCount := i_ViewsCount it + 1\<rparr>) = i_ViewsCount it"
        by simp
      then show False by simp
    qed
    with get' s' show "s' = s\<lparr>itineraries :=
                          map (\<lambda>i. if i_ID i = itineraryID \<and> i_DeletedAt i = None
                                   then i\<lparr>i_ViewsCount := i_ViewsCount i + 1\<rparr> else i)
                              (itineraries s)\<rparr>
                 \<and> ItineraryRepository_GetByID s' itineraryID
                      = Inr (it\<lparr>i_ViewsCount := i_ViewsCount it + 1\<rparr>)
                 \<and> s' \<noteq> s"
      by (simp add: ItineraryRepository_IncrementViews_def Update_def)
  qed
  from it resp other own show ?thesis by blast
qed

theorem C10_GetItineraryByID_views_witness:
  "map i_ViewsCount (itineraries (fst (ItineraryService_GetItineraryByID example_db 2 3)))
      = [5, 8, 0, 9]
   \<and> map_sum id ir_ViewsCount (snd (ItineraryService_GetItineraryByID example_db 2 3)) = Inr 7
   \<and> fst (ItineraryService_GetItineraryByID example_db 2 2) = example_db
   \<and> map_sum id ir_ViewsCount (snd (ItineraryService_GetItineraryByID example_db 2 2)) = Inr 7"
proof -
  let ?it = "example_itinerary 2 2 ''beach'' ''PT'' ''Lisboa'' True 7 (90 * day)"
  let ?other = "ItineraryService_GetItineraryByID example_db 2 3"
  let ?own = "ItineraryService_GetItineraryByID example_db 2 2"
  have g: "ItineraryRepository_GetByID example_db 2 = Inr ?it"
    by (simp add: example_defs ItineraryRepository_GetByID_def First_def)
  have a: "?other = (fst ?other, Inr (Itinerary_ToResponse ?it))"
    unfolding ItineraryService_GetItineraryByID_def g by (simp add: example_itinerary_def Let_def)
  have b: "?own = (fst ?own, Inr (Itinerary_ToResponse ?it))"
    unfolding ItineraryService_GetItineraryByID_def g by (simp add: example_itinerary_def Let_def)
  have its: "itineraries example_db =
        [example_itinerary 1 1 ''beach'' ''BR'' ''Rio'' True 5 (90 * day),
         example_itinerary 2 2 ''beach'' ''PT'' ''Lisboa'' True 7 (90 * day),
         example_itinerary 3 3 ''urban'' ''BR'' ''Recife'' False 0 (90 * day),
         example_itinerary 4 3 ''urban'' ''FR'' ''Paris'' True 9 (60 * day)]"
    by (simp add: example_db_def)
  have author: "i_AuthorID ?it = 2"
    by (simp add: example_itinerary_def)
  from C10_GetItineraryByID_views [OF a] g author
  have "fst ?other = example_db\<lparr>itineraries :=
          map (\<lambda>i. if i_ID i = 2 \<and> i_DeletedAt i = None
                   then i\<lparr>i_ViewsCount := i_ViewsCount i + 1\<rparr> else i)
              (itineraries example_db)\<rparr>"
    by auto
  then have v: "map i_ViewsCount (itineraries (fst ?other)) = [5, 8, 0, 9]"
    by (simp add: its example_itinerary_def)
  from C10_GetItineraryByID_views [OF b] g author
  have o: "fst ?own = example_db"
    by auto
  have r: "snd ?other = Inr (Itinerary_ToResponse ?it)" "snd ?own = Inr (Itinerary_ToResponse ?it)"
    using a b by (metis snd_conv)+
  have "map_sum id ir_ViewsCount (Inr (Itinerary_ToResponse ?it)) = Inr 7"
    by (simp add: Itinerary_ToResponse_def example_itinerary_def)
  with v o r show ?thesis by simp
qed

text \<open>
  C7. \<open>RateItinerary\<close> tests in this order and changes nothing when it fails: no live
  itinerary with the identifier gives the itinerary-not-found error; a private
  itinerary gives the private-itinerary error; a score below 1 or above 5 gives the
  range error; a rating row of the same user for the same itinerary gives the
  already-rated error. When none of these holds the call succeeds and appends the rating
  row (with the comment trimmed); and whenever it succeeds, none of them held.
\<close>

theorem C7_RateItinerary_errors:
  "((\<forall>i\<in>set (itineraries s). \<not> (i_ID i = I \<and> i_DeletedAt i = None)) \<longrightarrow>
       ItineraryService_RateItinerary s U I score comment = (s, Some Err_roteiro_nao_encontrado))
   \<and> (\<forall>it. ItineraryRepository_GetByID s I = Inr it \<longrightarrow>
         (\<not> i_IsPublic it \<longrightarrow>
            ItineraryService_RateItinerary s U I score comment
              = (s, Some Err_nao_e_possivel_avaliar_roteiros_privados))
         \<and> (i_IsPublic it \<and> (score < 1 \<or> score > 5) \<longrightarrow>
              ItineraryService_RateItinerary s U I score comment
                = (s, Some Err_avaliacao_deve_estar_entre_1_e_5))
         \<and> (i_IsPublic it \<and> 1 \<le> score \<and> score \<le> 5
              \<and> (\<exists>r\<in>set (itinerary_ratings s). r_UserID r = U \<and> r_ItineraryID r = I) \<longrightarrow>
              ItineraryService_RateItinerary s U I score comment
                = (s, Some Err_voce_ja_avaliou_este_roteiro))
         \<and> (i_IsPublic it \<and> 1 \<le> score \<and> score \<le> 5
              \<and> \<not> (\<exists>r\<in>set (itinerary_ratings s). r_UserID r = U \<and> r_ItineraryID r = I) \<longrightarrow>
              (\<exists>s'. ItineraryService_RateItinerary s U I score comment = (s', None)
                 \<and> itinerary_ratings s' = itinerary_ratings s @
                      [\<lparr>r_ItineraryID = I, r_UserID = U, r_Rating = score,
                        r_Comment = TrimSpace comment\<rparr>])))
   \<and> (\<forall>s'. ItineraryService_RateItinerary s U I score comment = (s', None) \<longrightarrow>
         (\<exists>it. ItineraryRepository_GetByID s I = Inr it \<and> i_IsPublic it)
         \<and> 1 \<le> score \<and> score \<le> 5
         \<and> \<not> (\<exists>r\<in>set (itinerary_ratings s). r_UserID r = U \<and> r_ItineraryID r = I))"
proof (intro conjI impI allI)
  assume "\<forall>i\<in>set (itineraries s). \<not> (i_ID i = I \<and> i_DeletedAt i = None)"
  then obtain e where "ItineraryRepository_GetByID s I = Inl e"
    using GetByID_Inl_iff [of s I] by blast
  then show "ItineraryService_RateItinerary s U I score comment = (s, Some Err_roteiro_nao_encontrado)"
    by (simp add: ItineraryService_RateItinerary_def)
next
  fix it
  assume "ItineraryRepository_GetByID s I = Inr it" and "\<not> i_IsPublic it"
  then show "ItineraryService_RateItinerary s U I score comment
              = (s, Some Err_nao_e_possivel_avaliar_roteiros_privados)"
    by (simp add: ItineraryService_RateItinerary_def)
next
  fix it
  assume "ItineraryRepository_GetByID s I = Inr it" and "i_IsPublic it \<and> (score < 1 \<or> score > 5)"
  then show "ItineraryService_RateItinerary s U I score comment
                = (s, Some Err_avaliacao_deve_estar_entre_1_e_5)"
    by (auto simp: ItineraryService_RateItinerary_def validateRating_def)
next
  fix it
  assume it: "ItineraryRepository_GetByID s I = Inr it"
    and h: "i_IsPublic it \<and> 1 \<le> score \<and> score \<le> 5
              \<and> (\<exists>r\<in>set (itinerary_ratings s). r_UserID r = U \<and> r_ItineraryID r = I)"
  then obtain r where "ItineraryRepository_GetUserRating s U I = Inr r"
    using GetUserRating_Inr_iff [of s U I] by blast
  with it h show "ItineraryService_RateItinerary s U I score comment
                = (s, Some Err_voce_ja_avaliou_este_roteiro)"
    by (simp add: ItineraryService_RateItinerary_def validateRating_def)
next
  fix it
  assume it: "ItineraryRepository_GetByID s I = Inr it"
    and h: "i_IsPublic it \<and> 1 \<le> score \<and> score \<le> 5
              \<and> \<not> (\<exists>r\<in>set (itinerary_ratings s). r_UserID r = U \<and> r_ItineraryID r = I)"
  then have "\<not> (\<exists>r. ItineraryRepository_GetUserRating s U I = Inr r)"
    using GetUserRating_Inr_iff [of s U I] by blast
  then obtain e where "ItineraryRepository_GetUserRating s U I = Inl e"
    by (cases "ItineraryRepository_GetUserRating s U I") auto
  with it h show "\<exists>s'. ItineraryService_RateItinerary s U I score comment = (s', None)
                 \<and> itinerary_ratings s' = itinerary_ratings s @
                      [\<lparr>r_ItineraryID = I, r_UserID = U, r_Rating = score,
                        r_Comment = TrimSpace comment\<rparr>]"
    by (simp add: ItineraryService_RateItinerary_def validateRating_def
        ItineraryRepository_RateItinerary_def rating_check_def Let_def updateItineraryRatingStats_eq)
next
  fix s'
  assume ok: "ItineraryService_RateItinerary s U I score comment = (s', None)"
  then show "\<exists>it. ItineraryRepository_GetByID s I = Inr it \<and> i_IsPublic it"
    by (auto simp: ItineraryService_RateItinerary_def split: sum.splits if_splits)
  from ok show "1 \<le> score"
    by (auto simp: ItineraryService_RateItinerary_def validateRating_def
        split: sum.splits if_splits option.splits)
  from ok show "score \<le> 5"
    by (auto simp: ItineraryService_RateItinerary_def validateRating_def
        split: sum.splits if_splits option.splits)
  from ok have "\<not> (\<exists>r. ItineraryRepository_GetUserRating s U I = Inr r)"
    by (auto simp: ItineraryService_RateItinerary_def validateRating_def
        split: sum.splits if_splits option.splits)
  then show "\<not> (\<exists>r\<in>set (itinerary_ratings s). r_UserID r = U \<and> r_ItineraryID r = I)"
    using GetUserRating_Inr_iff [of s U I] by blast
qed

theorem C7_RateItinerary_errors_witness:
  "ItineraryService_RateItinerary example_db 3 99 4 '' ok '' = (example_db, Some Err_roteiro_nao_encontrado)
   \<and> ItineraryService_RateItinerary example_db 2 3 4 '' ok ''
        = (example_db, Some Err_nao_e_possivel_avaliar_roteiros_privados)
   \<and> ItineraryService_RateItinerary example_db 3 2 6 '' ok ''
        = (example_db, Some Err_avaliacao_deve_estar_entre_1_e_5)
   \<and> snd (ItineraryService_RateItinerary example_db 3 2 4 '' ok '') = None
   \<and> itinerary_ratings (fst (ItineraryService_RateItinerary example_db 3 2 4 '' ok ''))
        = [\<lparr>r_ItineraryID = 2, r_UserID = 3, r_Rating = 4, r_Comment = ''ok''\<rparr>]
   \<and> ItineraryService_RateItinerary
        (example_db\<lparr>itinerary_ratings :=
           [\<lparr>r_ItineraryID = 2, r_UserID = 3, r_Rating = 4, r_Comment = ''ok''\<rparr>]\<rparr>) 3 2 5 []
        = (example_db\<lparr>itinerary_ratings :=
             [\<lparr>r_ItineraryID = 2, r_UserID = 3, r_Rating = 4, r_Comment = ''ok''\<rparr>]\<rparr>,
           Some Err_voce_ja_avaliou_este_roteiro)"
proof -
  let ?rated = "example_db\<lparr>itinerary_ratings :=
           [\<lparr>r_ItineraryID = 2, r_UserID = 3, r_Rating = 4, r_Comment = ''ok''\<rparr>]\<rparr>"
  have g2: "ItineraryRepository_GetByID example_db 2
              = Inr (example_itinerary 2 2 ''beach'' ''PT'' ''Lisboa'' True 7 (90 * day))"
    and g2': "ItineraryRepository_GetByID ?rated 2
              = Inr (example_itinerary 2 2 ''beach'' ''PT'' ''Lisboa'' True 7 (90 * day))"
    and g3: "ItineraryRepository_GetByID example_db 3
              = Inr (example_itinerary 3 3 ''urban'' ''BR'' ''Recife'' False 0 (90 * day))"
    by (simp_all add: example_defs ItineraryRepository_GetByID_def First_def)
  have p2: "i_IsPublic (example_itinerary 2 2 ''beach'' ''PT'' ''Lisboa'' True 7 (90 * day))"
    and p3: "\<not> i_IsPublic (example_itinerary 3 3 ''urban'' ''BR'' ''Recife'' False 0 (90 * day))"
    by (simp_all add: example_itinerary_def)
  have none: "itinerary_ratings example_db = []"
    and its: "\<forall>i\<in>set (itineraries example_db). i_ID i \<noteq> 99"
    by (simp_all add: example_defs)
  have trim: "TrimSpace '' ok '' = ''ok''"
    by (simp add: TrimSpace_def isSpace_def)
  have a: "ItineraryService_RateItinerary example_db 3 99 4 '' ok '' = (example_db, Some Err_roteiro_nao_encontrado)"
    using C7_RateItinerary_errors [of example_db 99 3 4 "'' ok ''"] its by simp
  have b: "ItineraryService_RateItinerary example_db 2 3 4 '' ok ''
        = (example_db, Some Err_nao_e_possivel_avaliar_roteiros_privados)"
    using C7_RateItinerary_errors [of example_db 3 2 4 "'' ok ''"] g3 p3 by simp
  note c7 = C7_RateItinerary_errors [of example_db 2 3 _ "'' ok ''"]
  have c: "ItineraryService_RateItinerary example_db 3 2 6 '' ok ''
        = (example_db, Some Err_avaliacao_deve_estar_entre_1_e_5)"
    using c7 [of 6] g2 p2 by simp
  from c7 [of 4] g2 p2 none trim
  obtain s' where s': "ItineraryService_RateItinerary example_db 3 2 4 '' ok '' = (s', None)"
    and r': "itinerary_ratings s' = [\<lparr>r_ItineraryID = 2, r_UserID = 3, r_Rating = 4, r_Comment = ''ok''\<rparr>]"
    by auto
  have d: "ItineraryService_RateItinerary ?rated 3 2 5 [] = (?rated, Some Err_voce_ja_avaliou_este_roteiro)"
    using C7_RateItinerary_errors [of ?rated 2 3 5 "[]"] g2' p2 by simp
  from a b c d r' show ?thesis by (simp add: s')
qed



end
